theory Spec2Isabelle
  imports Complex_Main
begin

section \<open>Data model of StocksTradeSignal.py\<close>

text \<open>
  Python floats are idealised: a finite float is a \<^typ>\<open>real\<close>, and a column value that
  pandas leaves undefined (NaN) is \<open>None\<close>. Rounding and infinities are not modelled.
  The comparisons of the source are the IEEE ones: every comparison with NaN is false.
\<close>

type_synonym pyfloat = "real option"

definition fle :: "pyfloat \<Rightarrow> pyfloat \<Rightarrow> bool" where
  "fle a b = (case a of None \<Rightarrow> False | Some x \<Rightarrow> (case b of None \<Rightarrow> False | Some y \<Rightarrow> x \<le> y))"

definition flt :: "pyfloat \<Rightarrow> pyfloat \<Rightarrow> bool" where
  "flt a b = (case a of None \<Rightarrow> False | Some x \<Rightarrow> (case b of None \<Rightarrow> False | Some y \<Rightarrow> x < y))"

definition fge :: "pyfloat \<Rightarrow> pyfloat \<Rightarrow> bool" where
  "fge a b = fle b a"

definition fgt :: "pyfloat \<Rightarrow> pyfloat \<Rightarrow> bool" where
  "fgt a b = flt b a"

text \<open>The module-level settings read from the environment (lines 20 to 28).\<close>

record config =
  WATCHLIST :: "string list"
  FAST_SMA :: int
  SLOW_SMA :: int
  RSI_PERIOD :: int
  RSI_OVERSOLD :: int
  RSI_OVERBOUGHT :: int
  SLEEP_SECONDS :: int

text \<open>One row of the data frame after \<open>compute_indicators\<close>: the columns the program reads.\<close>

record row =
  close :: real
  sma_fast :: pyfloat
  sma_slow :: pyfloat
  rsi :: pyfloat

text \<open>\<open>detect_signals\<close> returns the string "buy", the string "sell", or None.\<close>

datatype signal = Buy | Sell

text \<open>
  Exceptions: \<open>Exc\<close> is an instance of Python's \<open>Exception\<close> (what \<open>except Exception\<close>
  catches), \<open>BaseExc\<close> one that is not (KeyboardInterrupt, SystemExit).
\<close>

datatype pyexn = Exc string | BaseExc string

section \<open>detect_signals (lines 63 to 83)\<close>

definition cross_up :: "pyfloat \<Rightarrow> pyfloat \<Rightarrow> pyfloat \<Rightarrow> pyfloat \<Rightarrow> bool" where
  "cross_up prev_fast prev_slow last_fast last_slow =
     (fle prev_fast prev_slow \<and> fgt last_fast last_slow)"

definition cross_down :: "pyfloat \<Rightarrow> pyfloat \<Rightarrow> pyfloat \<Rightarrow> pyfloat \<Rightarrow> bool" where
  "cross_down prev_fast prev_slow last_fast last_slow =
     (fge prev_fast prev_slow \<and> flt last_fast last_slow)"

text \<open>
  \<open>df.iloc[[-1]]\<close> and \<open>df.iloc[[-2]]\<close> raise IndexError when the frame has fewer than one,
  respectively two, rows; the length test of line 64 excludes that only when a window is
  positive.
\<close>

definition detect_signals :: "config \<Rightarrow> row list \<Rightarrow> pyexn + signal option" where
  "detect_signals cfg df =
     (if int (length df) < max (FAST_SMA cfg) (SLOW_SMA cfg) + 1 then Inr None
      else if length df < 2 then Inl (Exc ''IndexError'')
      else
        let last_row = df ! (length df - 1);
            prev_row = df ! (length df - 2);
            prev_fast = sma_fast prev_row;
            prev_slow = sma_slow prev_row;
            last_fast = sma_fast last_row;
            last_slow = sma_slow last_row;
            last_rsi = rsi last_row
        in
          if cross_up prev_fast prev_slow last_fast last_slow
             \<and> fgt last_rsi (Some (of_int (RSI_OVERSOLD cfg))) then Inr (Some Buy)
          else if cross_down prev_fast prev_slow last_fast last_slow
             \<and> flt last_rsi (Some (of_int (RSI_OVERBOUGHT cfg))) then Inr (Some Sell)
          else Inr None)"

section \<open>compute_indicators (lines 56 to 61)\<close>

definition mean :: "real list \<Rightarrow> real" where
  "mean ys = sum_list ys / real (length ys)"

text \<open>The \<open>w\<close> closes at the indices \<open>i + 1 - w, ..., i\<close> of the series.\<close>

definition trailing_closes :: "nat \<Rightarrow> real list \<Rightarrow> nat \<Rightarrow> real list" where
  "trailing_closes w xs i = take w (drop (i + 1 - w) xs)"

text \<open>
  Modelled from the spec: \<open>Series.rolling(window).mean()\<close> is a call into pandas, whose
  code is not part of the repository. The spec (4.1, 8) gives the value at index \<open>i\<close> as the
  arithmetic mean of the closes over the trailing \<open>window\<close> bars ending at \<open>i\<close> inclusive,
  absent while fewer than \<open>window\<close> bars are available. A window of 0 averages nothing and
  is absent everywhere.
\<close>

definition rolling_mean :: "nat \<Rightarrow> real list \<Rightarrow> nat \<Rightarrow> pyfloat" where
  "rolling_mean w xs i =
     (if w = 0 \<or> i + 1 < w then None else Some (mean (trailing_closes w xs i)))"

text \<open>The \<open>w\<close> bar-to-bar deltas that end at index \<open>i\<close>: close \<open>j + 1\<close> minus close \<open>j\<close>.\<close>

definition trailing_deltas :: "nat \<Rightarrow> real list \<Rightarrow> nat \<Rightarrow> real list" where
  "trailing_deltas w xs i = map (\<lambda>j. xs ! Suc j - xs ! j) [i - w ..< i]"

definition gain :: "real \<Rightarrow> real" where
  "gain d = max d 0"

definition loss :: "real \<Rightarrow> real" where
  "loss d = max (- d) 0"

definition avg_gain :: "nat \<Rightarrow> real list \<Rightarrow> nat \<Rightarrow> real" where
  "avg_gain w xs i = mean (map gain (trailing_deltas w xs i))"

definition avg_loss :: "nat \<Rightarrow> real list \<Rightarrow> nat \<Rightarrow> real" where
  "avg_loss w xs i = mean (map loss (trailing_deltas w xs i))"

text \<open>
  Modelled from the spec: \<open>RSIIndicator(close, window).rsi()\<close> is a call into the ta
  library, whose code is not part of the repository. The spec (4.1) gives the oscillator at
  index \<open>i\<close> from the trailing \<open>oscillatorWindow\<close> deltas as \<open>100 - 100 / (1 + RS)\<close> with
  \<open>RS = avgGain / avgLoss\<close>, as 100 when \<open>avgLoss\<close> is 0, and as undefined when fewer than
  \<open>oscillatorWindow\<close> trailing deltas exist. The averages are taken here as the plain means
  of the positive and of the negative deltas of the window.
\<close>

definition rsi_at :: "nat \<Rightarrow> real list \<Rightarrow> nat \<Rightarrow> pyfloat" where
  "rsi_at w xs i =
     (if w = 0 \<or> i < w then None
      else if avg_loss w xs i = 0 then Some 100
      else Some (100 - 100 / (1 + avg_gain w xs i / avg_loss w xs i)))"

text \<open>
  The frame is given by its \<open>Close\<close> column, the only one the program reads. The
  windows are meant positive, as the spec has them; what the libraries do with a window
  of 0 or less is not modelled, and the columns are then undefined throughout.
\<close>

definition compute_indicators :: "config \<Rightarrow> real list \<Rightarrow> row list" where
  "compute_indicators cfg closes =
     map (\<lambda>i. \<lparr> close = closes ! i,
                sma_fast = rolling_mean (nat (FAST_SMA cfg)) closes i,
                sma_slow = rolling_mean (nat (SLOW_SMA cfg)) closes i,
                rsi = rsi_at (nat (RSI_PERIOD cfg)) closes i \<rparr>)
         [0 ..< length closes]"

section \<open>The outside world and the program state\<close>

text \<open>
  The e-mail text is kept as its fields; the rendering (\<open>upper()\<close>, \<open>:.2f\<close>) is not
  modelled.
\<close>

type_synonym email_subject = "signal \<times> string"

record email_body =
  body_signal :: signal
  body_symbol :: string
  body_price :: real
  body_time :: string
  body_fast :: pyfloat
  body_slow :: pyfloat
  body_rsi :: pyfloat

text \<open>One record of the CSV file, with the keys of the dict of line 86.\<close>

record log_row =
  row_timestamp :: string
  row_symbol :: string
  row_signal :: signal
  row_price :: real
  row_extra :: email_body

datatype csv_line = Header "string list" | Record log_row

definition columns :: "string list" where
  "columns = [''timestamp'', ''symbol'', ''signal'', ''price'', ''extra'']"

text \<open>The lines that the \<open>logging\<close> calls of the program print.\<close>

datatype log_line =
    EmailSent email_subject
  | EmailFailed pyexn
  | Checked string string real
  | ErrorProcessing string pyexn

text \<open>
  \<open>last_signals\<close> is the dict of \<open>main_loop\<close>; \<open>log_file\<close> is the content of \<open>LOG_FILE\<close>
  (\<open>None\<close> when no such file exists); \<open>outbox\<close> holds the mails the server accepted;
  \<open>console\<close> holds the logging output.
\<close>

record state =
  last_signals :: "string \<rightharpoonup> signal"
  log_file :: "csv_line list option"
  outbox :: "(email_subject \<times> email_body) list"
  console :: "log_line list"

text \<open>
  What the outside world does while one symbol is processed: what \<open>yf.download\<close> returns or
  raises, whether the SMTP session raises, whether \<open>to_csv\<close> raises, and the clock.
\<close>

record world =
  fetched :: "pyexn + real list"
  smtp :: "pyexn option"
  csv_write :: "pyexn option"
  now :: string

section \<open>send_email (lines 31 to 44)\<close>

text \<open>
  The \<open>try\<close> of line 37 catches every \<open>Exception\<close>, logs it and returns normally; the
  function has no return value.
\<close>

definition send_email :: "world \<Rightarrow> email_subject \<Rightarrow> email_body \<Rightarrow> state \<Rightarrow> pyexn option \<times> state" where
  "send_email w subject body st =
     (case smtp w of
        None \<Rightarrow> (None, st\<lparr> outbox := outbox st @ [(subject, body)],
                            console := console st @ [EmailSent subject] \<rparr>)
      | Some (Exc e) \<Rightarrow> (None, st\<lparr> console := console st @ [EmailFailed (Exc e)] \<rparr>)
      | Some (BaseExc e) \<Rightarrow> (Some (BaseExc e), st))"

section \<open>log_signal (lines 85 to 91)\<close>

text \<open>A write that raises is taken to leave the file as it was.\<close>

definition log_signal ::
  "world \<Rightarrow> string \<Rightarrow> string \<Rightarrow> signal \<Rightarrow> real \<Rightarrow> email_body \<Rightarrow> state \<Rightarrow> pyexn option \<times> state" where
  "log_signal w ts symbol sg pr ex st =
     (let df_row = \<lparr> row_timestamp = ts, row_symbol = symbol, row_signal = sg,
                     row_price = pr, row_extra = ex \<rparr>
      in case csv_write w of
           Some e \<Rightarrow> (Some e, st)
         | None \<Rightarrow>
             (case log_file st of
                None \<Rightarrow> (None, st\<lparr> log_file := Some [Header columns, Record df_row] \<rparr>)
              | Some old \<Rightarrow> (None, st\<lparr> log_file := Some (old @ [Record df_row]) \<rparr>)))"

section \<open>main_loop (lines 93 to 116)\<close>

text \<open>The test of line 108 on the dict, and the assignment of line 113.\<close>

definition should_emit :: "(string \<rightharpoonup> signal) \<Rightarrow> string \<Rightarrow> signal \<Rightarrow> bool" where
  "should_emit m symbol sg = (m symbol \<noteq> Some sg)"

definition record_signal :: "(string \<rightharpoonup> signal) \<Rightarrow> string \<Rightarrow> signal \<Rightarrow> (string \<rightharpoonup> signal)" where
  "record_signal m symbol sg = m(symbol \<mapsto> sg)"

text \<open>
  The body of the \<open>try\<close> (lines 98 to 113) for one symbol: the exception it raises, if
  any, and the state it leaves. Both signal strings are non-empty, so the truth test on
  \<open>sig\<close> in line 108 is the test for None.
\<close>

definition try_body :: "config \<Rightarrow> world \<Rightarrow> string \<Rightarrow> state \<Rightarrow> pyexn option \<times> state" where
  "try_body cfg w symbol st =
     (case fetched w of
        Inl e \<Rightarrow> (Some e, st)
      | Inr closes \<Rightarrow>
          if closes = [] then (None, st)
          else
            let df = compute_indicators cfg closes in
            (case detect_signals cfg df of
               Inl e \<Rightarrow> (Some e, st)
             | Inr sig \<Rightarrow>
                 let pr = close (df ! (length df - 1));
                     ts = now w;
                     st1 = st\<lparr> console := console st @ [Checked symbol ts pr] \<rparr>
                 in
                   (case sig of
                      None \<Rightarrow> (None, st1)
                    | Some sg \<Rightarrow>
                        if should_emit (last_signals st1) symbol sg then
                          let subject = (sg, symbol);
                              body = \<lparr> body_signal = sg, body_symbol = symbol, body_price = pr,
                                       body_time = ts,
                                       body_fast = sma_fast (df ! (length df - 1)),
                                       body_slow = sma_slow (df ! (length df - 1)),
                                       body_rsi = rsi (df ! (length df - 1)) \<rparr>
                          in
                            (case send_email w subject body st1 of
                               (Some e, st2) \<Rightarrow> (Some e, st2)
                             | (None, st2) \<Rightarrow>
                                 (case log_signal w ts symbol sg pr body st2 of
                                    (Some e, st3) \<Rightarrow> (Some e, st3)
                                  | (None, st3) \<Rightarrow>
                                      (None, st3\<lparr> last_signals :=
                                                     record_signal (last_signals st3) symbol sg \<rparr>)))
                        else (None, st1))))"

text \<open>
  The \<open>try\<close> with its handler (lines 97 to 115): an \<open>Exception\<close> is logged and
  swallowed, anything else propagates. Line 115 hands \<open>logging.exception\<close> one argument
  more than its format string takes; \<open>logging\<close> handles that formatting error itself and
  prints the message with both arguments instead of raising, so the call is a console
  line here.
\<close>

definition process_symbol :: "config \<Rightarrow> world \<Rightarrow> string \<Rightarrow> state \<Rightarrow> pyexn option \<times> state" where
  "process_symbol cfg w symbol st =
     (case try_body cfg w symbol st of
        (None, st') \<Rightarrow> (None, st')
      | (Some (Exc e), st') \<Rightarrow>
          (None, st'\<lparr> console := console st' @ [ErrorProcessing symbol (Exc e)] \<rparr>)
      | (Some (BaseExc e), st') \<Rightarrow> (Some (BaseExc e), st'))"

text \<open>
  The \<open>for\<close> of line 96 over the rest of the watchlist; \<open>ws k\<close> is the world met by the
  symbol at position \<open>k\<close>.
\<close>

fun for_symbols :: "config \<Rightarrow> (nat \<Rightarrow> world) \<Rightarrow> nat \<Rightarrow> string list \<Rightarrow> state \<Rightarrow> pyexn option \<times> state" where
  "for_symbols cfg ws k [] st = (None, st)"
| "for_symbols cfg ws k (symbol # rest) st =
     (case process_symbol cfg (ws k) symbol st of
        (Some e, st') \<Rightarrow> (Some e, st')
      | (None, st') \<Rightarrow> for_symbols cfg ws (Suc k) rest st')"

text \<open>
  \<open>while True\<close> never returns by itself, so the loop is run for a given number of cycles;
  \<open>W c k\<close> is the world met in cycle \<open>c\<close> by the symbol at position \<open>k\<close>.
  \<open>time.sleep\<close> raises ValueError on a negative length and otherwise changes nothing here.
\<close>

fun cycles :: "nat \<Rightarrow> config \<Rightarrow> (nat \<Rightarrow> nat \<Rightarrow> world) \<Rightarrow> nat \<Rightarrow> state \<Rightarrow> pyexn option \<times> state" where
  "cycles 0 cfg W c st = (None, st)"
| "cycles (Suc n) cfg W c st =
     (case for_symbols cfg (W c) 0 (WATCHLIST cfg) st of
        (Some e, st') \<Rightarrow> (Some e, st')
      | (None, st') \<Rightarrow>
          if SLEEP_SECONDS cfg < 0 then (Some (Exc ''ValueError''), st')
          else cycles n cfg W (Suc c) st')"

text \<open>
  \<open>main_loop\<close> starts from an empty dict; the file, the mailbox and the console are as the
  process finds them.
\<close>

definition main_loop :: "nat \<Rightarrow> config \<Rightarrow> (nat \<Rightarrow> nat \<Rightarrow> world) \<Rightarrow> state \<Rightarrow> pyexn option \<times> state" where
  "main_loop n cfg W st0 = cycles n cfg W 0 (st0\<lparr> last_signals := Map.empty \<rparr>)"

text \<open>
  A world in which every exception raised is an \<open>Exception\<close>: a failure, as opposed to
  an interrupt or an exit request.
\<close>

fun is_base :: "pyexn \<Rightarrow> bool" where
  "is_base (BaseExc e) = True"
| "is_base (Exc e) = False"

definition only_exceptions :: "world \<Rightarrow> bool" where
  "only_exceptions w =
     ((case fetched w of Inl e \<Rightarrow> \<not> is_base e | Inr closes \<Rightarrow> True)
      \<and> (case smtp w of Some e \<Rightarrow> \<not> is_base e | None \<Rightarrow> True)
      \<and> (case csv_write w of Some e \<Rightarrow> \<not> is_base e | None \<Rightarrow> True))"

section \<open>Concrete inputs\<close>

text \<open>
  The default settings of lines 20 to 28, and frames of 22 rows whose last two rows are
  scenario A of the spec (a cross up with the oscillator at 45), the same with an
  undefined slow average, and a cross down after a tie.
\<close>

definition default_config :: config where
  "default_config = \<lparr> WATCHLIST = [''AAPL''], FAST_SMA = 9, SLOW_SMA = 21, RSI_PERIOD = 14,
     RSI_OVERSOLD = 30, RSI_OVERBOUGHT = 70, SLEEP_SECONDS = 60 \<rparr>"

definition filler :: row where
  "filler = \<lparr> close = 10, sma_fast = None, sma_slow = None, rsi = None \<rparr>"

definition frame_a :: "row list" where
  "frame_a = replicate 20 filler @
     [\<lparr> close = 10, sma_fast = Some (98 / 10), sma_slow = Some 10, rsi = Some 40 \<rparr>,
      \<lparr> close = 11, sma_fast = Some (102 / 10), sma_slow = Some (1005 / 100), rsi = Some 45 \<rparr>]"

definition frame_nan :: "row list" where
  "frame_nan = replicate 20 filler @
     [\<lparr> close = 10, sma_fast = Some (98 / 10), sma_slow = Some 10, rsi = Some 40 \<rparr>,
      \<lparr> close = 11, sma_fast = Some (102 / 10), sma_slow = None, rsi = Some 45 \<rparr>]"

definition frame_b :: "row list" where
  "frame_b = replicate 20 filler @
     [\<lparr> close = 10, sma_fast = Some 10, sma_slow = Some 10, rsi = Some 60 \<rparr>,
      \<lparr> close = 9, sma_fast = Some (99 / 10), sma_slow = Some 10, rsi = Some 55 \<rparr>]"

text \<open>
  Small windows, a series of three closes that crosses up on its last bar, and outside
  worlds in which the SMTP session fails, all goes well, the write to the log fails, the
  fetch returns no bars, and the fetch raises.
\<close>

definition small_config :: config where
  "small_config = \<lparr> WATCHLIST = [''AAPL'', ''MSFT''], FAST_SMA = 1, SLOW_SMA = 2, RSI_PERIOD = 1,
     RSI_OVERSOLD = 30, RSI_OVERBOUGHT = 70, SLEEP_SECONDS = 60 \<rparr>"

definition rising :: "real list" where
  "rising = [10, 9, 11]"

definition empty_state :: state where
  "empty_state = \<lparr> last_signals = Map.empty, log_file = None, outbox = [], console = [] \<rparr>"

definition smtp_down :: world where
  "smtp_down = \<lparr> fetched = Inr rising, smtp = Some (Exc ''SMTPException''), csv_write = None,
     now = ''t1'' \<rparr>"

definition healthy :: world where
  "healthy = \<lparr> fetched = Inr rising, smtp = None, csv_write = None, now = ''t2'' \<rparr>"

definition csv_down :: world where
  "csv_down = \<lparr> fetched = Inr rising, smtp = None, csv_write = Some (Exc ''OSError''),
     now = ''t3'' \<rparr>"

definition no_bars :: world where
  "no_bars = \<lparr> fetched = Inr [], smtp = None, csv_write = None, now = ''t4'' \<rparr>"

definition fetch_fails :: world where
  "fetch_fails = \<lparr> fetched = Inl (Exc ''ConnectionError''), smtp = None, csv_write = None,
     now = ''t5'' \<rparr>"

definition row1 :: log_row where
  "row1 = \<lparr> row_timestamp = ''t1'', row_symbol = ''AAPL'', row_signal = Buy, row_price = 11,
     row_extra = \<lparr> body_signal = Buy, body_symbol = ''AAPL'', body_price = 11,
       body_time = ''t1'', body_fast = Some 11, body_slow = Some 10, body_rsi = Some 100 \<rparr> \<rparr>"

definition row2 :: log_row where
  "row2 = \<lparr> row_timestamp = ''t9'', row_symbol = ''AAPL'', row_signal = Sell, row_price = 8,
     row_extra = \<lparr> body_signal = Sell, body_symbol = ''AAPL'', body_price = 8,
       body_time = ''t9'', body_fast = Some 8, body_slow = Some 9, body_rsi = Some 20 \<rparr> \<rparr>"

definition buy_stored :: state where
  "buy_stored = \<lparr> last_signals = [''AAPL'' \<mapsto> Buy], log_file = None, outbox = [], console = [] \<rparr>"

definition skip_first :: "nat \<Rightarrow> world" where
  "skip_first k = (if k = 0 then no_bars else healthy)"

definition fail_first :: "nat \<Rightarrow> world" where
  "fail_first k = (if k = 0 then fetch_fails else healthy)"

definition after_msft :: state where
  "after_msft = \<lparr> last_signals = [''MSFT'' \<mapsto> Buy],
        log_file = Some [Header columns,
          Record \<lparr> row_timestamp = ''t2'', row_symbol = ''MSFT'', row_signal = Buy, row_price = 11,
            row_extra = \<lparr> body_signal = Buy, body_symbol = ''MSFT'', body_price = 11,
              body_time = ''t2'', body_fast = Some 11, body_slow = Some 10,
              body_rsi = Some 100 \<rparr> \<rparr>],
        outbox = [((Buy, ''MSFT''),
          \<lparr> body_signal = Buy, body_symbol = ''MSFT'', body_price = 11,
              body_time = ''t2'', body_fast = Some 11, body_slow = Some 10,
              body_rsi = Some 100 \<rparr>)],
        console = [Checked ''MSFT'' ''t2'' 11, EmailSent (Buy, ''MSFT'')] \<rparr>"

section \<open>Basic facts\<close>

lemma fcmp_simps [simp]:
  "fle (Some x) (Some y) = (x \<le> y)" "flt (Some x) (Some y) = (x < y)"
  "fge (Some x) (Some y) = (y \<le> x)" "fgt (Some x) (Some y) = (y < x)"
  "fle None b = False" "fle a None = False" "flt None b = False" "flt a None = False"
  "fge None b = False" "fge a None = False" "fgt None b = False" "fgt a None = False"
  by (simp_all add: fle_def flt_def fge_def fgt_def split: option.splits)

lemma length_compute_indicators [simp]: "length (compute_indicators cfg closes) = length closes"
  by (simp add: compute_indicators_def)

section \<open>The concrete inputs evaluated\<close>

lemma upt3: "[0..<3] = [0, 1, 2]"
  by (simp add: upt_rec)

lemma ci_rising: "compute_indicators small_config rising =
  [\<lparr> close = 10, sma_fast = Some 10, sma_slow = None, rsi = None \<rparr>,
   \<lparr> close = 9, sma_fast = Some 9, sma_slow = Some (19 / 2), rsi = Some 0 \<rparr>,
   \<lparr> close = 11, sma_fast = Some 11, sma_slow = Some 10, rsi = Some 100 \<rparr>]"
  by (simp add: compute_indicators_def small_config_def rising_def upt3 rolling_mean_def
      trailing_closes_def mean_def rsi_at_def avg_loss_def avg_gain_def trailing_deltas_def
      gain_def loss_def)

lemma small_config_fields [simp]:
  "WATCHLIST small_config = [''AAPL'', ''MSFT'']" "FAST_SMA small_config = 1" "SLOW_SMA small_config = 2"
  "RSI_PERIOD small_config = 1" "RSI_OVERSOLD small_config = 30"
  "RSI_OVERBOUGHT small_config = 70" "SLEEP_SECONDS small_config = 60"
  by (simp_all add: small_config_def)

lemma ds_rising: "detect_signals small_config (compute_indicators small_config rising) = Inr (Some Buy)"
  by (simp add: ci_rising detect_signals_def cross_up_def Let_def)

lemma rising_not_empty [simp]: "rising \<noteq> []"
  by (simp add: rising_def)

lemma length_rising [simp]: "length rising = 3"
  by (simp add: rising_def)

lemma last_row_rising:
  "compute_indicators small_config rising ! 2
     = \<lparr> close = 11, sma_fast = Some 11, sma_slow = Some 10, rsi = Some 100 \<rparr>"
  by (simp add: ci_rising)

lemma detect_frame_a: "detect_signals default_config frame_a = Inr (Some Buy)"
  by (simp add: detect_signals_def frame_a_def default_config_def nth_append cross_up_def Let_def)

lemma detect_frame_b: "detect_signals default_config frame_b = Inr (Some Sell)"
  by (simp add: detect_signals_def frame_b_def default_config_def nth_append cross_up_def cross_down_def Let_def)

lemma avg_loss_rising: "avg_loss (nat (RSI_PERIOD small_config)) rising 2 = 0"
  by (simp add: avg_loss_def trailing_deltas_def mean_def loss_def rising_def numeral_2_eq_2)

lemma process_smtp_down:
  "process_symbol small_config smtp_down ''AAPL'' empty_state =
     (None, \<lparr> last_signals = [''AAPL'' \<mapsto> Buy],
        log_file = Some [Header columns,
          Record \<lparr> row_timestamp = ''t1'', row_symbol = ''AAPL'', row_signal = Buy, row_price = 11,
            row_extra = \<lparr> body_signal = Buy, body_symbol = ''AAPL'', body_price = 11,
              body_time = ''t1'', body_fast = Some 11, body_slow = Some 10,
              body_rsi = Some 100 \<rparr> \<rparr>],
        outbox = [],
        console = [Checked ''AAPL'' ''t1'' 11, EmailFailed (Exc ''SMTPException'')] \<rparr>)"
  by (simp add: process_symbol_def try_body_def ds_rising last_row_rising smtp_down_def Let_def
      send_email_def log_signal_def should_emit_def empty_state_def record_signal_def)

lemma process_csv_down:
  "process_symbol small_config csv_down ''AAPL'' empty_state =
     (None, \<lparr> last_signals = Map.empty, log_file = None,
        outbox = [((Buy, ''AAPL''),
          \<lparr> body_signal = Buy, body_symbol = ''AAPL'', body_price = 11,
              body_time = ''t3'', body_fast = Some 11, body_slow = Some 10,
              body_rsi = Some 100 \<rparr>)],
        console = [Checked ''AAPL'' ''t3'' 11, EmailSent (Buy, ''AAPL''),
                   ErrorProcessing ''AAPL'' (Exc ''OSError'')] \<rparr>)"
  by (simp add: process_symbol_def try_body_def ds_rising last_row_rising csv_down_def Let_def
      send_email_def log_signal_def should_emit_def empty_state_def record_signal_def)

lemma process_healthy_again:
  "process_symbol small_config healthy ''AAPL'' buy_stored =
     (None, buy_stored\<lparr> console := [Checked ''AAPL'' ''t2'' 11] \<rparr>)"
  by (simp add: process_symbol_def try_body_def ds_rising last_row_rising healthy_def Let_def
      should_emit_def buy_stored_def)

lemma process_healthy_msft:
  "process_symbol small_config healthy ''MSFT'' empty_state = (None, after_msft)"
  by (simp add: process_symbol_def try_body_def ds_rising last_row_rising healthy_def Let_def
      send_email_def log_signal_def should_emit_def empty_state_def record_signal_def
      after_msft_def)

lemma only_exceptions_fail_first: "only_exceptions (fail_first k)"
  by (simp add: fail_first_def only_exceptions_def fetch_fails_def healthy_def)

section \<open>The indicators\<close>

lemma sum_list_take_drop:
  assumes "d + w \<le> length xs"
  shows "sum_list (take w (drop d xs)) = (\<Sum>k<w. (xs ! (d + k) :: real))"
proof -
  have len: "length (take w (drop d xs)) = w"
    using assms by simp
  have "sum_list (take w (drop d xs)) = (\<Sum>k = 0..<w. take w (drop d xs) ! k)"
    using sum_list_sum_nth [of "take w (drop d xs)"] len by simp
  also have "\<dots> = (\<Sum>k = 0..<w. xs ! (d + k))"
    using assms by (intro sum.cong) simp_all
  finally show ?thesis
    by (simp add: lessThan_atLeast0)
qed

lemma trailing_closes_window:
  assumes "0 < w" "w \<le> i + 1" "i < length xs"
  shows "length (trailing_closes w xs i) = w"
    and "k < w \<Longrightarrow> trailing_closes w xs i ! k = xs ! (i + 1 - w + k)"
    and "mean (trailing_closes w xs i) = (\<Sum>k<w. xs ! (i + 1 - w + k)) / real w"
proof -
  have fit: "i + 1 - w + w \<le> length xs"
    using assms by simp
  show "length (trailing_closes w xs i) = w"
    using fit by (simp add: trailing_closes_def)
  show "k < w \<Longrightarrow> trailing_closes w xs i ! k = xs ! (i + 1 - w + k)"
    using fit by (simp add: trailing_closes_def)
  show "mean (trailing_closes w xs i) = (\<Sum>k<w. xs ! (i + 1 - w + k)) / real w"
    using fit sum_list_take_drop [OF fit] by (simp add: mean_def trailing_closes_def)
qed

lemma rolling_mean_value:
  assumes "0 < w" "i < length xs"
  shows "rolling_mean w xs i =
           (if i + 1 < w then None else Some ((\<Sum>k<w. xs ! (i + 1 - w + k)) / real w))"
proof (cases "i + 1 < w")
  case True
  then show ?thesis by (simp add: rolling_mean_def)
next
  case False
  then have "w \<le> i + 1" by simp
  from trailing_closes_window(3) [OF assms(1) this assms(2)] False assms(1)
  show ?thesis by (simp add: rolling_mean_def)
qed

text \<open>
  Claim C4. For a positive window \<open>w\<close> the moving-average column at index \<open>i\<close> is absent
  when \<open>i < w - 1\<close> and present when \<open>i \<ge> w - 1\<close>, where it is the sum of exactly the
  \<open>w\<close> closes at the indices \<open>i - w + 1, ..., i\<close> divided by \<open>w\<close>. This holds for the
  fast and for the slow column of \<open>compute_indicators\<close>.
\<close>

theorem moving_average_is_trailing_mean:
  assumes "0 < FAST_SMA cfg" and "0 < SLOW_SMA cfg" and "i < length closes"
  shows "sma_fast (compute_indicators cfg closes ! i) =
           (if int i < FAST_SMA cfg - 1 then None
            else Some ((\<Sum>k<nat (FAST_SMA cfg). closes ! (i + 1 - nat (FAST_SMA cfg) + k))
                        / real_of_int (FAST_SMA cfg)))
       \<and> sma_slow (compute_indicators cfg closes ! i) =
           (if int i < SLOW_SMA cfg - 1 then None
            else Some ((\<Sum>k<nat (SLOW_SMA cfg). closes ! (i + 1 - nat (SLOW_SMA cfg) + k))
                        / real_of_int (SLOW_SMA cfg)))
       \<and> (int i \<ge> FAST_SMA cfg - 1 \<longrightarrow>
            length (trailing_closes (nat (FAST_SMA cfg)) closes i) = nat (FAST_SMA cfg)
            \<and> sma_fast (compute_indicators cfg closes ! i)
                = Some (mean (trailing_closes (nat (FAST_SMA cfg)) closes i)))
       \<and> (int i \<ge> SLOW_SMA cfg - 1 \<longrightarrow>
            length (trailing_closes (nat (SLOW_SMA cfg)) closes i) = nat (SLOW_SMA cfg)
            \<and> sma_slow (compute_indicators cfg closes ! i)
                = Some (mean (trailing_closes (nat (SLOW_SMA cfg)) closes i)))"
proof -
  have window: "0 < w \<Longrightarrow>
          rolling_mean (nat w) closes i =
              (if int i < w - 1 then None
               else Some ((\<Sum>k<nat w. closes ! (i + 1 - nat w + k)) / real_of_int w))
          \<and> (int i \<ge> w - 1 \<longrightarrow>
               length (trailing_closes (nat w) closes i) = nat w
               \<and> rolling_mean (nat w) closes i
                   = Some (mean (trailing_closes (nat w) closes i)))" for w
  proof -
    assume pos: "0 < w"
    have "(i + 1 < nat w) = (int i < w - 1)"
      using pos by linarith
    moreover have "real (nat w) = real_of_int w"
      using pos by simp
    ultimately have val: "rolling_mean (nat w) closes i =
              (if int i < w - 1 then None
               else Some ((\<Sum>k<nat w. closes ! (i + 1 - nat w + k)) / real_of_int w))"
      using rolling_mean_value [of "nat w" i closes] pos assms(3) by simp
    have "int i \<ge> w - 1 \<Longrightarrow> length (trailing_closes (nat w) closes i) = nat w"
      using pos assms(3) by (intro trailing_closes_window(1)) linarith+
    moreover have "int i \<ge> w - 1 \<Longrightarrow> rolling_mean (nat w) closes i
                     = Some (mean (trailing_closes (nat w) closes i))"
      using pos by (simp add: rolling_mean_def)
    ultimately show ?thesis
      using val by blast
  qed
  have fast: "sma_fast (compute_indicators cfg closes ! i) = rolling_mean (nat (FAST_SMA cfg)) closes i"
    and slow: "sma_slow (compute_indicators cfg closes ! i) = rolling_mean (nat (SLOW_SMA cfg)) closes i"
    using assms(3) by (simp_all add: compute_indicators_def)
  show ?thesis
    unfolding fast slow
    using window [OF assms(1)] window [OF assms(2)] by blast
qed

theorem moving_average_is_trailing_mean_witness:
  "0 < FAST_SMA small_config \<and> 0 < SLOW_SMA small_config \<and> 1 < length rising
   \<and> sma_fast (compute_indicators small_config rising ! 1) = Some 9
   \<and> sma_slow (compute_indicators small_config rising ! 1) = Some (19 / 2)
   \<and> sma_slow (compute_indicators small_config rising ! 0) = None"
  using moving_average_is_trailing_mean [of small_config 1 rising]
    moving_average_is_trailing_mean [of small_config 0 rising]
  by (simp add: rising_def lessThan_nat_numeral lessThan_Suc)

lemma mean_nonneg:
  assumes "\<forall>y \<in> set ys. 0 \<le> y"
  shows "0 \<le> mean ys"
  using assms by (simp add: mean_def sum_list_nonneg)

lemma avg_gain_nonneg: "0 \<le> avg_gain w xs i"
  unfolding avg_gain_def by (rule mean_nonneg) (auto simp: gain_def)

lemma avg_loss_nonneg: "0 \<le> avg_loss w xs i"
  unfolding avg_loss_def by (rule mean_nonneg) (auto simp: loss_def)

lemma rsi_formula_range:
  assumes "0 \<le> g" and "0 < l"
  shows "0 \<le> 100 - 100 / (1 + g / l)" and "100 - 100 / (1 + g / l) \<le> (100 :: real)"
proof -
  have "0 \<le> g / l"
    using assms by simp
  then have one: "1 \<le> 1 + g / l"
    by simp
  then have "100 / (1 + g / l) \<le> 100 / 1"
    by (intro divide_left_mono) simp_all
  then show "0 \<le> 100 - 100 / (1 + g / l)"
    by simp
  have "0 \<le> 100 / (1 + g / l)"
    using one by simp
  then show "100 - 100 / (1 + g / l) \<le> 100"
    by simp
qed

lemma rsi_at_range:
  assumes "rsi_at w xs i = Some v"
  shows "0 \<le> v \<and> v \<le> 100"
proof (cases "avg_loss w xs i = 0")
  case True
  with assms show ?thesis
    by (simp add: rsi_at_def split: if_splits)
next
  case False
  then have pos: "0 < avg_loss w xs i"
    using avg_loss_nonneg [of w xs i] by simp
  from assms False have "v = 100 - 100 / (1 + avg_gain w xs i / avg_loss w xs i)"
    by (simp add: rsi_at_def split: if_splits)
  with rsi_formula_range [OF avg_gain_nonneg pos, of w xs i] show ?thesis
    by simp
qed

text \<open>
  Claim C5. Wherever the oscillator column of \<open>compute_indicators\<close> is defined its value
  lies between 0 and 100 inclusive; it is exactly 100 when the average loss over the
  window is 0 (and the window is filled); and it is undefined at every index with fewer
  than \<open>RSI_PERIOD\<close> deltas before it.
\<close>

theorem oscillator_range:
  assumes "i < length closes"
  shows "(rsi (compute_indicators cfg closes ! i) = Some v \<longrightarrow> 0 \<le> v \<and> v \<le> 100)
       \<and> (0 < RSI_PERIOD cfg \<and> RSI_PERIOD cfg \<le> int i
            \<and> avg_loss (nat (RSI_PERIOD cfg)) closes i = 0 \<longrightarrow>
            rsi (compute_indicators cfg closes ! i) = Some 100)
       \<and> (int i < RSI_PERIOD cfg \<longrightarrow> rsi (compute_indicators cfg closes ! i) = None)"
proof -
  have col: "rsi (compute_indicators cfg closes ! i) = rsi_at (nat (RSI_PERIOD cfg)) closes i"
    using assms by (simp add: compute_indicators_def)
  have "rsi_at (nat (RSI_PERIOD cfg)) closes i = Some v \<longrightarrow> 0 \<le> v \<and> v \<le> 100"
    using rsi_at_range [of "nat (RSI_PERIOD cfg)" closes i v] by blast
  moreover have "0 < RSI_PERIOD cfg \<and> RSI_PERIOD cfg \<le> int i
            \<and> avg_loss (nat (RSI_PERIOD cfg)) closes i = 0 \<longrightarrow>
            rsi_at (nat (RSI_PERIOD cfg)) closes i = Some 100"
    by (simp add: rsi_at_def) linarith
  moreover have "int i < RSI_PERIOD cfg \<longrightarrow> rsi_at (nat (RSI_PERIOD cfg)) closes i = None"
    by (simp add: rsi_at_def) linarith
  ultimately show ?thesis
    unfolding col by blast
qed

theorem oscillator_range_witness:
  "2 < length rising \<and> 0 < RSI_PERIOD small_config \<and> RSI_PERIOD small_config \<le> int 2
   \<and> avg_loss (nat (RSI_PERIOD small_config)) rising 2 = 0
   \<and> rsi (compute_indicators small_config rising ! 2) = Some 100
   \<and> int 0 < RSI_PERIOD small_config
   \<and> rsi (compute_indicators small_config rising ! 0) = None
   \<and> rsi (compute_indicators small_config rising ! 1) = Some 0
   \<and> (0::real) \<le> 0 \<and> (0::real) \<le> 100"
  using oscillator_range [of 2 rising small_config 100]
    oscillator_range [of 0 rising small_config 0]
    oscillator_range [of 1 rising small_config 0]
    avg_loss_rising
  by (simp add: ci_rising)

section \<open>The signal detector\<close>

text \<open>
  Claim C1. Take a frame whose previous and last rows have defined fast and slow averages,
  and that comes from \<open>compute_indicators\<close> or passes the length test of line 64 (for a
  frame of \<open>compute_indicators\<close> the defined averages imply the test). Then \<open>cross_up\<close>
  holds exactly when \<open>prev_fast \<le> prev_slow\<close> and \<open>last_fast > last_slow\<close> (a tie on the
  previous bar counts), \<open>cross_down\<close> exactly when \<open>prev_fast \<ge> prev_slow\<close> and
  \<open>last_fast < last_slow\<close>, and the result is Buy if \<open>cross_up\<close> holds and the last
  oscillator value is above \<open>RSI_OVERSOLD\<close>, else Sell if \<open>cross_down\<close> holds and it is
  below \<open>RSI_OVERBOUGHT\<close>, else no signal. An undefined oscillator value is neither above
  nor below a threshold.
\<close>

theorem detect_signals_classifies:
  assumes len2: "2 \<le> length df"
    and frame: "df = compute_indicators cfg closes
                \<or> max (FAST_SMA cfg) (SLOW_SMA cfg) + 1 \<le> int (length df)"
    and pf: "sma_fast (df ! (length df - 2)) = Some prev_fast"
    and ps: "sma_slow (df ! (length df - 2)) = Some prev_slow"
    and lf: "sma_fast (df ! (length df - 1)) = Some last_fast"
    and ls: "sma_slow (df ! (length df - 1)) = Some last_slow"
  shows "(cross_up (Some prev_fast) (Some prev_slow) (Some last_fast) (Some last_slow)
            \<longleftrightarrow> prev_fast \<le> prev_slow \<and> last_fast > last_slow)
       \<and> (cross_down (Some prev_fast) (Some prev_slow) (Some last_fast) (Some last_slow)
            \<longleftrightarrow> prev_fast \<ge> prev_slow \<and> last_fast < last_slow)
       \<and> detect_signals cfg df = Inr
           (if (prev_fast \<le> prev_slow \<and> last_fast > last_slow)
               \<and> (\<exists>v. rsi (df ! (length df - 1)) = Some v \<and> v > of_int (RSI_OVERSOLD cfg))
            then Some Buy
            else if (prev_fast \<ge> prev_slow \<and> last_fast < last_slow)
               \<and> (\<exists>v. rsi (df ! (length df - 1)) = Some v \<and> v < of_int (RSI_OVERBOUGHT cfg))
            then Some Sell
            else None)"
proof -
  have len: "max (FAST_SMA cfg) (SLOW_SMA cfg) + 1 \<le> int (length df)"
  proof (cases "df = compute_indicators cfg closes")
    case True
    then have n: "length closes = length df"
      by simp
    with len2 have "length df - 2 < length closes"
      by simp
    with True pf ps
    have "rolling_mean (nat (FAST_SMA cfg)) closes (length df - 2) \<noteq> None"
      and "rolling_mean (nat (SLOW_SMA cfg)) closes (length df - 2) \<noteq> None"
      by (simp_all add: compute_indicators_def)
    then have "nat (FAST_SMA cfg) \<le> length df - 2 + 1" "nat (SLOW_SMA cfg) \<le> length df - 2 + 1"
      by (simp_all add: rolling_mean_def split: if_splits)
    with len2 show ?thesis
      by linarith
  next
    case False
    with frame show ?thesis by simp
  qed
  have not_short: "\<not> int (length df) < max (FAST_SMA cfg) (SLOW_SMA cfg) + 1" "\<not> length df < 2"
    using len len2 by simp_all
  show ?thesis
  proof (cases "rsi (df ! (length df - 1))")
    case None
    then show ?thesis
      using not_short pf ps lf ls
      by (simp add: detect_signals_def cross_up_def cross_down_def Let_def)
  next
    case (Some v)
    then show ?thesis
      using not_short pf ps lf ls
      by (simp add: detect_signals_def cross_up_def cross_down_def Let_def)
  qed
qed

theorem detect_signals_classifies_witness:
  "2 \<le> length frame_a
   \<and> max (FAST_SMA default_config) (SLOW_SMA default_config) + 1 \<le> int (length frame_a)
   \<and> detect_signals default_config frame_a = Inr (Some Buy)
   \<and> 2 \<le> length (compute_indicators small_config rising)
   \<and> detect_signals small_config (compute_indicators small_config rising) = Inr (Some Buy)"
  using detect_signals_classifies [of frame_a default_config "[]" "98 / 10" 10 "102 / 10" "1005 / 100"]
    detect_signals_classifies [of "compute_indicators small_config rising" small_config rising
      9 "19 / 2" 11 10]
  by (simp add: frame_a_def default_config_def nth_append ci_rising)

text \<open>
  Claim C3. A frame with fewer than \<open>max(FAST_SMA, SLOW_SMA) + 1\<close> rows (in particular the
  frame computed from so few bars), and any frame whose previous or last row has an
  undefined fast or slow average, gives no signal: the result is the value None, not an
  exception.
\<close>

theorem detect_signals_insufficient_data:
  "(int (length df) < max (FAST_SMA cfg) (SLOW_SMA cfg) + 1 \<longrightarrow> detect_signals cfg df = Inr None)
 \<and> (int (length closes) < max (FAST_SMA cfg) (SLOW_SMA cfg) + 1
      \<longrightarrow> detect_signals cfg (compute_indicators cfg closes) = Inr None)
 \<and> (2 \<le> length df
      \<and> (sma_fast (df ! (length df - 2)) = None \<or> sma_slow (df ! (length df - 2)) = None
         \<or> sma_fast (df ! (length df - 1)) = None \<or> sma_slow (df ! (length df - 1)) = None)
      \<longrightarrow> detect_signals cfg df = Inr None)"
proof (intro conjI impI)
  assume "int (length df) < max (FAST_SMA cfg) (SLOW_SMA cfg) + 1"
  then show "detect_signals cfg df = Inr None"
    by (simp add: detect_signals_def)
next
  assume "int (length closes) < max (FAST_SMA cfg) (SLOW_SMA cfg) + 1"
  then show "detect_signals cfg (compute_indicators cfg closes) = Inr None"
    by (simp add: detect_signals_def)
next
  assume a: "2 \<le> length df
      \<and> (sma_fast (df ! (length df - 2)) = None \<or> sma_slow (df ! (length df - 2)) = None
         \<or> sma_fast (df ! (length df - 1)) = None \<or> sma_slow (df ! (length df - 1)) = None)"
  then have "\<not> length df < 2" by simp
  moreover have "\<not> cross_up (sma_fast (df ! (length df - 2))) (sma_slow (df ! (length df - 2)))
                     (sma_fast (df ! (length df - 1))) (sma_slow (df ! (length df - 1)))"
    using a by (auto simp: cross_up_def)
  moreover have "\<not> cross_down (sma_fast (df ! (length df - 2))) (sma_slow (df ! (length df - 2)))
                     (sma_fast (df ! (length df - 1))) (sma_slow (df ! (length df - 1)))"
    using a by (auto simp: cross_down_def)
  ultimately show "detect_signals cfg df = Inr None"
    by (simp add: detect_signals_def Let_def)
qed

theorem detect_signals_insufficient_data_witness:
  "int (length [10, 11, 12 :: real]) < max (FAST_SMA default_config) (SLOW_SMA default_config) + 1
   \<and> detect_signals default_config (compute_indicators default_config [10, 11, 12]) = Inr None
   \<and> 2 \<le> length frame_nan
   \<and> \<not> int (length frame_nan) < max (FAST_SMA default_config) (SLOW_SMA default_config) + 1
   \<and> sma_slow (frame_nan ! (length frame_nan - 1)) = None
   \<and> detect_signals default_config frame_nan = Inr None"
  using detect_signals_insufficient_data [of "compute_indicators default_config [10, 11, 12]" default_config "[10, 11, 12]"]
    detect_signals_insufficient_data [of frame_nan default_config "[]"]
  by (simp add: frame_nan_def default_config_def nth_append)

text \<open>
  Claim C10. \<open>last_fast > last_slow\<close> and \<open>last_fast < last_slow\<close> never hold together, so
  \<open>cross_up\<close> and \<open>cross_down\<close> exclude each other: when the detector returns Buy the
  condition of the Sell branch fails, and when it returns Sell the condition of the Buy
  branch fails.
\<close>

theorem cross_up_down_exclusive:
  "\<not> (fgt last_fast last_slow \<and> flt last_fast last_slow)
 \<and> \<not> (cross_up prev_fast prev_slow last_fast last_slow
        \<and> cross_down prev_fast prev_slow last_fast last_slow)
 \<and> (detect_signals cfg df = Inr (Some Buy) \<longrightarrow>
        \<not> cross_down (sma_fast (df ! (length df - 2))) (sma_slow (df ! (length df - 2)))
                     (sma_fast (df ! (length df - 1))) (sma_slow (df ! (length df - 1))))
 \<and> (detect_signals cfg df = Inr (Some Sell) \<longrightarrow>
        \<not> cross_up (sma_fast (df ! (length df - 2))) (sma_slow (df ! (length df - 2)))
                   (sma_fast (df ! (length df - 1))) (sma_slow (df ! (length df - 1))))"
proof -
  have excl: "\<not> (fgt a b \<and> flt a b)" for a b
    by (cases a; cases b) simp_all
  have cross: "\<not> (cross_up a b c d \<and> cross_down a b c d)" for a b c d
    using excl [of c d] by (simp add: cross_up_def cross_down_def)
  have buy: "detect_signals cfg df = Inr (Some Buy) \<Longrightarrow>
        cross_up (sma_fast (df ! (length df - 2))) (sma_slow (df ! (length df - 2)))
                 (sma_fast (df ! (length df - 1))) (sma_slow (df ! (length df - 1)))"
    by (simp add: detect_signals_def Let_def split: if_splits)
  have sell: "detect_signals cfg df = Inr (Some Sell) \<Longrightarrow>
        cross_down (sma_fast (df ! (length df - 2))) (sma_slow (df ! (length df - 2)))
                   (sma_fast (df ! (length df - 1))) (sma_slow (df ! (length df - 1)))"
    by (simp add: detect_signals_def Let_def split: if_splits)
  show ?thesis
    using excl cross buy sell by blast
qed

theorem cross_up_down_exclusive_witness:
  "detect_signals default_config frame_a = Inr (Some Buy)
   \<and> \<not> cross_down (Some (98 / 10)) (Some 10) (Some (102 / 10)) (Some (1005 / 100))
   \<and> detect_signals default_config frame_b = Inr (Some Sell)
   \<and> \<not> cross_up (Some 10) (Some 10) (Some (99 / 10)) (Some 10)"
  using cross_up_down_exclusive [of _ _ _ _ default_config frame_a]
    cross_up_down_exclusive [of _ _ _ _ default_config frame_b]
    detect_frame_a detect_frame_b
  by (simp add: frame_a_def frame_b_def nth_append)

section \<open>The log writer\<close>

lemma log_signal_file:
  assumes "csv_write w = None"
  shows "log_file (snd (log_signal w (row_timestamp r) (row_symbol r) (row_signal r)
                          (row_price r) (row_extra r) st))
         = Some ((case log_file st of None \<Rightarrow> [Header columns] | Some old \<Rightarrow> old) @ [Record r])"
  using assms by (cases "log_file st") (simp_all add: log_signal_def)

lemma log_signal_repeated:
  assumes "csv_write w = None"
  shows "log_file (foldl (\<lambda>s r. snd (log_signal w (row_timestamp r) (row_symbol r) (row_signal r)
                                         (row_price r) (row_extra r) s)) st (r0 # rs))
         = Some ((case log_file st of None \<Rightarrow> [Header columns] | Some old \<Rightarrow> old)
                 @ map Record (r0 # rs))"
proof (induction rs arbitrary: st r0)
  case Nil
  show ?case using log_signal_file [OF assms] by simp
next
  case (Cons r1 rs)
  show ?case
    using Cons.IH [where ?r0.0 = r1 and st = "snd (log_signal w (row_timestamp r0) (row_symbol r0)
                                 (row_signal r0) (row_price r0) (row_extra r0) st)"]
      log_signal_file [OF assms, where r = r0 and st = st]
    by simp
qed

text \<open>
  Claim C9. When the write succeeds: on an absent file \<open>log_signal\<close> creates it as the
  header row followed by the record; on an existing file it appends exactly the record,
  leaving the earlier lines as they were and writing no header; the rest of the state is
  untouched. After any number of writes the file is the header (or the earlier content)
  followed by one record per write, in order.
\<close>

theorem log_signal_header_once:
  assumes "csv_write w = None"
  shows "(log_file st = None \<longrightarrow>
            log_signal w ts symbol sg pr ex st =
              (None, st\<lparr> log_file := Some [Header columns,
                  Record \<lparr> row_timestamp = ts, row_symbol = symbol, row_signal = sg,
                           row_price = pr, row_extra = ex \<rparr>] \<rparr>))
       \<and> (log_file st = Some old \<longrightarrow>
            log_signal w ts symbol sg pr ex st =
              (None, st\<lparr> log_file := Some (old @
                  [Record \<lparr> row_timestamp = ts, row_symbol = symbol, row_signal = sg,
                            row_price = pr, row_extra = ex \<rparr>]) \<rparr>))
       \<and> log_file (foldl (\<lambda>s r. snd (log_signal w (row_timestamp r) (row_symbol r) (row_signal r)
                                           (row_price r) (row_extra r) s)) st (r0 # rs))
           = Some ((case log_file st of None \<Rightarrow> [Header columns] | Some old \<Rightarrow> old)
                   @ map Record (r0 # rs))"
  using assms log_signal_repeated [OF assms, where st = st and ?r0.0 = r0 and rs = rs]
  by (simp add: log_signal_def)

theorem log_signal_header_once_witness:
  "csv_write healthy = None \<and> log_file empty_state = None
   \<and> log_file (snd (log_signal healthy ''t1'' ''AAPL'' Buy 11 (row_extra row1) empty_state))
       = Some [Header columns, Record row1]
   \<and> log_file (snd (log_signal healthy ''t9'' ''AAPL'' Sell 8 (row_extra row2)
         (empty_state\<lparr> log_file := Some [Header columns, Record row1] \<rparr>)))
       = Some [Header columns, Record row1, Record row2]
   \<and> log_file (foldl (\<lambda>s r. snd (log_signal healthy (row_timestamp r) (row_symbol r) (row_signal r)
                                           (row_price r) (row_extra r) s)) empty_state [row1, row2])
       = Some [Header columns, Record row1, Record row2]"
proof -
  have ok: "csv_write healthy = None"
    by (simp add: healthy_def)
  have absent: "log_file empty_state = None"
    by (simp add: empty_state_def)
  show ?thesis
    using ok absent
      log_signal_header_once [OF ok, of empty_state "''t1''" "''AAPL''" Buy 11 "row_extra row1" "[]" row1 "[row2]"]
      log_signal_header_once [OF ok, of "empty_state\<lparr> log_file := Some [Header columns, Record row1] \<rparr>"
         "''t9''" "''AAPL''" Sell 8 "row_extra row2" "[Header columns, Record row1]" row1 "[]"]
    by (simp add: row1_def row2_def)
qed

section \<open>Notification, audit log and dedup memory\<close>

lemma send_email_cases:
  assumes "send_email w subject body st = (r, st')"
  shows "last_signals st' = last_signals st \<and> log_file st' = log_file st
     \<and> (\<forall>e. r = Some e \<longrightarrow> smtp w = Some e \<and> is_base e \<and> st' = st)
     \<and> (r = None \<longrightarrow> smtp w = None \<or> (\<exists>e. smtp w = Some (Exc e)))"
proof (cases "smtp w")
  case None
  with assms show ?thesis by (auto simp: send_email_def)
next
  case (Some e)
  with assms show ?thesis by (cases e) (auto simp: send_email_def)
qed

lemma log_signal_cases:
  assumes "log_signal w ts symbol sg pr ex st = (r, st')"
  shows "last_signals st' = last_signals st \<and> outbox st' = outbox st \<and> console st' = console st
     \<and> (\<forall>e. r = Some e \<longrightarrow> csv_write w = Some e \<and> st' = st)
     \<and> (r = None \<longrightarrow> csv_write w = None \<and> log_file st' \<noteq> log_file st)"
proof (cases "csv_write w")
  case None
  with assms show ?thesis by (cases "log_file st") (auto simp: log_signal_def Let_def)
next
  case (Some e)
  with assms have "r = Some e" "st' = st"
    by (simp_all add: log_signal_def Let_def)
  with Some show ?thesis by simp
qed

lemma try_body_last_signals:
  assumes "try_body cfg w symbol st = (r, st')"
  shows "last_signals st' = last_signals st
       \<or> (r = None \<and> csv_write w = None \<and> (smtp w = None \<or> (\<exists>e. smtp w = Some (Exc e)))
          \<and> log_file st' \<noteq> log_file st
          \<and> (\<exists>closes sg. fetched w = Inr closes \<and> closes \<noteq> []
                \<and> detect_signals cfg (compute_indicators cfg closes) = Inr (Some sg)
                \<and> should_emit (last_signals st) symbol sg
                \<and> last_signals st' = record_signal (last_signals st) symbol sg))"
proof (cases "fetched w")
  case (Inl e)
  with assms show ?thesis by (simp add: try_body_def)
next
  case (Inr closes)
  show ?thesis
  proof (cases "closes = []")
    case True
    with Inr assms show ?thesis by (simp add: try_body_def)
  next
    case False
    show ?thesis
    proof (cases "detect_signals cfg (compute_indicators cfg closes)")
      case (Inl e)
      with Inr False assms show ?thesis by (simp add: try_body_def)
    next
      case det: (Inr sig)
      show ?thesis
      proof (cases sig)
        case None
        with det Inr False assms show ?thesis by (auto simp: try_body_def Let_def)
      next
        case (Some sg)
        show ?thesis
        proof (cases "should_emit (last_signals st) symbol sg")
          case False
          with Some det Inr \<open>closes \<noteq> []\<close> assms show ?thesis
            by (auto simp: try_body_def Let_def)
        next
          case True
          with Some det Inr \<open>closes \<noteq> []\<close> assms show ?thesis
            by (auto simp: try_body_def Let_def split: prod.splits option.splits
                dest!: send_email_cases log_signal_cases)
        qed
      qed
    qed
  qed
qed

lemma process_symbol_last_signals:
  assumes "process_symbol cfg w symbol st = (r, st')"
  shows "last_signals st' = last_signals st
       \<or> (r = None \<and> csv_write w = None \<and> (smtp w = None \<or> (\<exists>e. smtp w = Some (Exc e)))
          \<and> log_file st' \<noteq> log_file st
          \<and> (\<exists>closes sg. fetched w = Inr closes \<and> closes \<noteq> []
                \<and> detect_signals cfg (compute_indicators cfg closes) = Inr (Some sg)
                \<and> should_emit (last_signals st) symbol sg
                \<and> last_signals st' = record_signal (last_signals st) symbol sg))"
proof (cases "try_body cfg w symbol st")
  case (Pair r0 st0)
  from try_body_last_signals [OF Pair] assms Pair show ?thesis
    by (cases r0) (auto simp: process_symbol_def split: pyexn.splits)
qed

text \<open>
  Claim C2, as stated, fails: the SMTP session raises, \<open>send_email\<close> swallows the
  exception, nothing reaches the mailbox, and yet the record is logged and the signal is
  stored for the symbol.
\<close>

theorem failed_notification_is_recorded:
  "smtp smtp_down = Some (Exc ''SMTPException'')
   \<and> fst (process_symbol small_config smtp_down ''AAPL'' empty_state) = None
   \<and> outbox (snd (process_symbol small_config smtp_down ''AAPL'' empty_state)) = []
   \<and> last_signals (snd (process_symbol small_config smtp_down ''AAPL'' empty_state)) ''AAPL''
       = Some Buy
   \<and> \<not> should_emit
         (last_signals (snd (process_symbol small_config smtp_down ''AAPL'' empty_state)))
         ''AAPL'' Buy"
  by (simp add: process_smtp_down should_emit_def) (simp add: smtp_down_def)

lemma process_symbol_smtp_exc:
  assumes "fetched w = Inr closes" "closes \<noteq> []"
    and "detect_signals cfg (compute_indicators cfg closes) = Inr (Some sg)"
    and "should_emit (last_signals st) symbol sg"
    and "smtp w = Some (Exc e)" "csv_write w = None"
    and "process_symbol cfg w symbol st = (r, st')"
  shows "r = None \<and> last_signals st' = record_signal (last_signals st) symbol sg
       \<and> outbox st' = outbox st"
  using assms
  by (cases "log_file st")
     (auto simp: process_symbol_def try_body_def Let_def send_email_def log_signal_def)

text \<open>
  Claim C2, amended. If the append to the log raises, the dict is left as it was, so the
  test of line 108 gives the same answer on the next cycle. The dict changes only when
  \<open>send_email\<close> has returned and the append has succeeded. A failure of the SMTP session
  alone is swallowed by \<open>send_email\<close>: the record is still logged and the signal stored,
  with no mail delivered.
\<close>

theorem record_only_after_log_append:
  assumes "process_symbol cfg w symbol st = (r, st')"
  shows "(csv_write w \<noteq> None \<longrightarrow> last_signals st' = last_signals st)
       \<and> (last_signals st' \<noteq> last_signals st \<longrightarrow>
            csv_write w = None \<and> log_file st' \<noteq> log_file st
            \<and> (smtp w = None \<or> (\<exists>e. smtp w = Some (Exc e))))
       \<and> (fetched w = Inr closes \<and> closes \<noteq> []
            \<and> detect_signals cfg (compute_indicators cfg closes) = Inr (Some sg)
            \<and> should_emit (last_signals st) symbol sg
            \<and> smtp w = Some (Exc e) \<and> csv_write w = None \<longrightarrow>
            r = None \<and> last_signals st' = record_signal (last_signals st) symbol sg
            \<and> outbox st' = outbox st)"
proof (intro conjI impI)
  assume "csv_write w \<noteq> None"
  with process_symbol_last_signals [OF assms] show "last_signals st' = last_signals st"
    by auto
next
  assume "last_signals st' \<noteq> last_signals st"
  with process_symbol_last_signals [OF assms]
  show "csv_write w = None" "log_file st' \<noteq> log_file st"
    "smtp w = None \<or> (\<exists>e. smtp w = Some (Exc e))"
    by auto
next
  assume a: "fetched w = Inr closes \<and> closes \<noteq> []
            \<and> detect_signals cfg (compute_indicators cfg closes) = Inr (Some sg)
            \<and> should_emit (last_signals st) symbol sg
            \<and> smtp w = Some (Exc e) \<and> csv_write w = None"
  with process_symbol_smtp_exc [of w closes cfg sg st symbol e r st'] assms
  show "r = None" "last_signals st' = record_signal (last_signals st) symbol sg"
    "outbox st' = outbox st"
    by simp_all
qed

theorem record_only_after_log_append_witness:
  "csv_write csv_down \<noteq> None
   \<and> last_signals (snd (process_symbol small_config csv_down ''AAPL'' empty_state))
       = last_signals empty_state
   \<and> should_emit (last_signals (snd (process_symbol small_config csv_down ''AAPL'' empty_state)))
        ''AAPL'' Buy
   \<and> smtp smtp_down = Some (Exc ''SMTPException'') \<and> csv_write smtp_down = None
   \<and> last_signals (snd (process_symbol small_config smtp_down ''AAPL'' empty_state))
       = record_signal (last_signals empty_state) ''AAPL'' Buy
   \<and> last_signals (snd (process_symbol small_config smtp_down ''AAPL'' empty_state))
       \<noteq> last_signals empty_state
   \<and> log_file (snd (process_symbol small_config smtp_down ''AAPL'' empty_state))
       \<noteq> log_file empty_state"
proof -
  have down: "csv_write csv_down \<noteq> None"
    by (simp add: csv_down_def)
  have a: "fetched smtp_down = Inr rising \<and> rising \<noteq> []
            \<and> detect_signals small_config (compute_indicators small_config rising) = Inr (Some Buy)
            \<and> should_emit (last_signals empty_state) ''AAPL'' Buy
            \<and> smtp smtp_down = Some (Exc ''SMTPException'') \<and> csv_write smtp_down = None"
    by (simp add: ds_rising should_emit_def empty_state_def) (simp add: smtp_down_def)
  have changed: "record_signal (last_signals empty_state) ''AAPL'' Buy \<noteq> last_signals empty_state"
    by (simp add: record_signal_def empty_state_def fun_eq_iff)
  show ?thesis
    using down a changed
      record_only_after_log_append [of small_config csv_down "''AAPL''" empty_state
        "fst (process_symbol small_config csv_down ''AAPL'' empty_state)"
        "snd (process_symbol small_config csv_down ''AAPL'' empty_state)" rising Buy "''x''"]
      record_only_after_log_append [of small_config smtp_down "''AAPL''" empty_state
        "fst (process_symbol small_config smtp_down ''AAPL'' empty_state)"
        "snd (process_symbol small_config smtp_down ''AAPL'' empty_state)" rising Buy "''SMTPException''"]
    by (simp add: should_emit_def empty_state_def)
qed

lemma process_symbol_keeps_others:
  assumes "process_symbol cfg w symbol st = (r, st')"
  shows "last_signals st' S = last_signals st S
       \<or> (S = symbol \<and> (\<exists>sg. should_emit (last_signals st) S sg \<and> last_signals st' S = Some sg))"
proof (cases "last_signals st' = last_signals st")
  case True
  then show ?thesis by simp
next
  case False
  with process_symbol_last_signals [OF assms] obtain sg
    where "should_emit (last_signals st) symbol sg"
      and "last_signals st' = record_signal (last_signals st) symbol sg"
    by blast
  then show ?thesis
    by (cases "S = symbol") (simp_all add: record_signal_def)
qed

lemma process_symbol_dom:
  assumes "process_symbol cfg w symbol st = (r, st')"
  shows "dom (last_signals st) \<subseteq> dom (last_signals st')"
  using process_symbol_last_signals [OF assms]
  by (auto simp: record_signal_def)

lemma for_symbols_dom:
  "for_symbols cfg ws k wl st = (r, st') \<Longrightarrow> dom (last_signals st) \<subseteq> dom (last_signals st')"
proof (induction wl arbitrary: k st)
  case Nil
  then show ?case by simp
next
  case (Cons symbol rest)
  obtain r1 st1 where p: "process_symbol cfg (ws k) symbol st = (r1, st1)"
    by (cases "process_symbol cfg (ws k) symbol st")
  show ?case
  proof (cases r1)
    case None
    with p Cons.prems have "for_symbols cfg ws (Suc k) rest st1 = (r, st')"
      by simp
    then have "dom (last_signals st1) \<subseteq> dom (last_signals st')"
      by (rule Cons.IH)
    with process_symbol_dom [OF p] show ?thesis by blast
  next
    case (Some e)
    with p Cons.prems have "st' = st1" by simp
    with process_symbol_dom [OF p] show ?thesis by simp
  qed
qed

lemma cycles_dom:
  "cycles n cfg W c st = (r, st') \<Longrightarrow> dom (last_signals st) \<subseteq> dom (last_signals st')"
proof (induction n arbitrary: c st)
  case 0
  then show ?case by simp
next
  case (Suc n)
  obtain r1 st1 where f: "for_symbols cfg (W c) 0 (WATCHLIST cfg) st = (r1, st1)"
    by (cases "for_symbols cfg (W c) 0 (WATCHLIST cfg) st")
  show ?case
  proof (cases "r1 = None \<and> \<not> SLEEP_SECONDS cfg < 0")
    case True
    with f Suc.prems have "cycles n cfg W (Suc c) st1 = (r, st')"
      by simp
    then have "dom (last_signals st1) \<subseteq> dom (last_signals st')"
      by (rule Suc.IH)
    with for_symbols_dom [OF f] show ?thesis by blast
  next
    case False
    with f Suc.prems have "st' = st1"
      by (cases r1) (auto split: if_splits)
    with for_symbols_dom [OF f] show ?thesis by simp
  qed
qed

text \<open>
  Claim C6. The test of line 108 is true exactly when no signal is stored for the symbol or
  the stored one differs from the new one; it only reads the dict. After Buy is stored for
  a symbol the test is false for Buy and true for Sell. A stored signal never expires:
  processing a symbol leaves every entry as it was, except that the entry of that symbol
  may be overwritten by a signal for which the test was true, and no number of cycles
  removes an entry.
\<close>

theorem dedup_memory:
  "(should_emit m S sg \<longleftrightarrow> m S = None \<or> (\<exists>old. m S = Some old \<and> old \<noteq> sg))
 \<and> should_emit Map.empty S sg
 \<and> \<not> should_emit (record_signal m S Buy) S Buy
 \<and> should_emit (record_signal m S Buy) S Sell
 \<and> (process_symbol cfg w symbol st = (r, st') \<longrightarrow>
       last_signals st' S = last_signals st S
       \<or> (S = symbol \<and> (\<exists>new. should_emit (last_signals st) S new
                                 \<and> last_signals st' S = Some new)))
 \<and> (cycles n cfg W c st = (r, st') \<and> last_signals st S \<noteq> None \<longrightarrow> last_signals st' S \<noteq> None)"
proof -
  have "should_emit m S sg \<longleftrightarrow> m S = None \<or> (\<exists>old. m S = Some old \<and> old \<noteq> sg)"
    by (cases "m S") (simp_all add: should_emit_def)
  moreover have "should_emit Map.empty S sg"
    "\<not> should_emit (record_signal m S Buy) S Buy"
    "should_emit (record_signal m S Buy) S Sell"
    by (simp_all add: should_emit_def record_signal_def)
  moreover have "process_symbol cfg w symbol st = (r, st') \<longrightarrow>
       last_signals st' S = last_signals st S
       \<or> (S = symbol \<and> (\<exists>new. should_emit (last_signals st) S new
                                 \<and> last_signals st' S = Some new))"
    using process_symbol_keeps_others [of cfg w symbol st r st' S] by blast
  moreover have "cycles n cfg W c st = (r, st') \<and> last_signals st S \<noteq> None
                   \<longrightarrow> last_signals st' S \<noteq> None"
    using cycles_dom [of n cfg W c st r st'] by (auto simp: dom_def)
  ultimately show ?thesis by blast
qed

theorem dedup_memory_witness:
  "process_symbol small_config healthy ''AAPL'' buy_stored =
     (None, buy_stored\<lparr> console := [Checked ''AAPL'' ''t2'' 11] \<rparr>)
   \<and> last_signals (buy_stored\<lparr> console := [Checked ''AAPL'' ''t2'' 11] \<rparr>) ''AAPL''
       = last_signals buy_stored ''AAPL''
   \<and> last_signals buy_stored ''AAPL'' \<noteq> None
   \<and> last_signals (snd (cycles 3 small_config (\<lambda>c k. healthy) 0 buy_stored)) ''AAPL'' \<noteq> None"
  using dedup_memory [of "last_signals buy_stored" "''AAPL''" Buy small_config healthy "''AAPL''"
      buy_stored None "buy_stored\<lparr> console := [Checked ''AAPL'' ''t2'' 11] \<rparr>" 0 "\<lambda>c k. healthy" 0]
    process_healthy_again
    dedup_memory [of "last_signals buy_stored" "''AAPL''" Buy small_config healthy "''AAPL''"
      buy_stored "fst (cycles 3 small_config (\<lambda>c k. healthy) 0 buy_stored)"
      "snd (cycles 3 small_config (\<lambda>c k. healthy) 0 buy_stored)" 3 "\<lambda>c k. healthy" 0]
  by (simp add: buy_stored_def)

section \<open>The polling loop\<close>

text \<open>
  Claim C7. When the fetch returns no bars the symbol is skipped: the body of the
  \<open>try\<close> raises nothing and leaves the whole state as it was (no mail, no log record, no
  logging line, no change of the dict), whatever the settings, and the loop goes on with
  the next symbol from that same state.
\<close>

theorem empty_fetch_skips_symbol:
  assumes "fetched (ws k) = Inr []"
  shows "try_body cfg (ws k) symbol st = (None, st)
       \<and> process_symbol cfg (ws k) symbol st = (None, st)
       \<and> for_symbols cfg ws k (symbol # rest) st = for_symbols cfg ws (Suc k) rest st"
  using assms by (simp add: try_body_def process_symbol_def)

theorem empty_fetch_skips_symbol_witness:
  "fetched (skip_first 0) = Inr []
   \<and> process_symbol small_config (skip_first 0) ''AAPL'' empty_state = (None, empty_state)
   \<and> for_symbols small_config skip_first 0 (WATCHLIST small_config) empty_state
       = (None, after_msft)"
proof -
  have h: "fetched (skip_first 0) = Inr []"
    by (simp add: skip_first_def no_bars_def)
  have rest: "for_symbols small_config skip_first (Suc 0) [''MSFT''] empty_state = (None, after_msft)"
    by (simp add: skip_first_def process_healthy_msft)
  show ?thesis
    using h rest
      empty_fetch_skips_symbol [of skip_first 0 small_config "''AAPL''" empty_state "[''MSFT'']"]
    by simp
qed

lemma process_symbol_only_exceptions:
  assumes "only_exceptions w"
  shows "fst (process_symbol cfg w symbol st) = None"
proof (cases "try_body cfg w symbol st")
  case (Pair r st1)
  show ?thesis
  proof (cases r)
    case None
    with Pair show ?thesis by (simp add: process_symbol_def)
  next
    case (Some e)
    have "\<not> is_base e"
    proof (cases "fetched w")
      case (Inl e')
      with Pair Some assms show ?thesis
        by (simp add: try_body_def only_exceptions_def)
    next
      case (Inr closes)
      show ?thesis
      proof (cases "detect_signals cfg (compute_indicators cfg closes)")
        case (Inl e')
        then have "e' = Exc ''IndexError''"
          by (simp add: detect_signals_def Let_def split: if_splits)
        with Inl Inr Pair Some show ?thesis
          by (auto simp: try_body_def split: if_splits)
      next
        case det: (Inr sig)
        with Inr Pair Some assms show ?thesis
          by (auto simp: try_body_def Let_def only_exceptions_def
              split: if_splits option.splits prod.splits
              dest!: send_email_cases log_signal_cases)
      qed
    qed
    with Pair Some show ?thesis
      by (cases e) (simp_all add: process_symbol_def)
  qed
qed

lemma process_symbol_catches:
  assumes "try_body cfg w symbol st = (Some (Exc e), st1)"
  shows "process_symbol cfg w symbol st =
           (None, st1\<lparr> console := console st1 @ [ErrorProcessing symbol (Exc e)] \<rparr>)"
  using assms by (simp add: process_symbol_def)

lemma for_symbols_only_exceptions:
  assumes "\<forall>k. only_exceptions (ws k)"
  shows "fst (for_symbols cfg ws k wl st) = None"
proof (induction wl arbitrary: k st)
  case Nil
  show ?case by simp
next
  case (Cons symbol rest)
  obtain st1 where "process_symbol cfg (ws k) symbol st = (None, st1)"
    using process_symbol_only_exceptions [of "ws k" cfg symbol st] assms
    by (cases "process_symbol cfg (ws k) symbol st") auto
  then show ?case
    using Cons.IH [of "Suc k" st1] by simp
qed

lemma cycles_only_exceptions:
  assumes "\<forall>c k. only_exceptions (W c k)" and "0 \<le> SLEEP_SECONDS cfg"
  shows "fst (cycles n cfg W c st) = None"
proof (induction n arbitrary: c st)
  case 0
  show ?case by simp
next
  case (Suc n)
  obtain st1 where "for_symbols cfg (W c) 0 (WATCHLIST cfg) st = (None, st1)"
    using for_symbols_only_exceptions [of "W c" cfg 0 "WATCHLIST cfg" st] assms(1)
    by (cases "for_symbols cfg (W c) 0 (WATCHLIST cfg) st") auto
  then show ?case
    using Suc.IH [of "Suc c" st1] assms(2) by simp
qed

text \<open>
  Claim C8. An \<open>Exception\<close> raised while one symbol is processed is caught by the handler
  of line 114, reported on the console, and the loop goes on with the next symbol. When
  the outside world raises nothing but \<open>Exception\<close>s, no symbol ends the \<open>for\<close> loop, and
  (the sleep length being non-negative, which \<open>time.sleep\<close> requires) the scheduler
  completes every cycle it is given: it has no exit on such an error.
\<close>

theorem symbol_failure_never_aborts:
  "(try_body cfg (ws k) symbol st = (Some (Exc e), st1) \<longrightarrow>
      process_symbol cfg (ws k) symbol st =
        (None, st1\<lparr> console := console st1 @ [ErrorProcessing symbol (Exc e)] \<rparr>)
      \<and> for_symbols cfg ws k (symbol # rest) st =
          for_symbols cfg ws (Suc k) rest
            (st1\<lparr> console := console st1 @ [ErrorProcessing symbol (Exc e)] \<rparr>))
 \<and> (only_exceptions w \<longrightarrow> fst (process_symbol cfg w symbol st) = None)
 \<and> ((\<forall>k. only_exceptions (ws k)) \<longrightarrow> fst (for_symbols cfg ws k wl st) = None)
 \<and> ((\<forall>c k. only_exceptions (W c k)) \<and> 0 \<le> SLEEP_SECONDS cfg \<longrightarrow>
       fst (cycles n cfg W c st) = None \<and> fst (main_loop n cfg W st) = None)"
proof (intro conjI impI)
  assume a: "try_body cfg (ws k) symbol st = (Some (Exc e), st1)"
  show "process_symbol cfg (ws k) symbol st =
        (None, st1\<lparr> console := console st1 @ [ErrorProcessing symbol (Exc e)] \<rparr>)"
    by (rule process_symbol_catches [OF a])
  then show "for_symbols cfg ws k (symbol # rest) st =
          for_symbols cfg ws (Suc k) rest
            (st1\<lparr> console := console st1 @ [ErrorProcessing symbol (Exc e)] \<rparr>)"
    by simp
next
  assume "only_exceptions w"
  then show "fst (process_symbol cfg w symbol st) = None"
    by (rule process_symbol_only_exceptions)
next
  assume "\<forall>k. only_exceptions (ws k)"
  then show "fst (for_symbols cfg ws k wl st) = None"
    by (rule for_symbols_only_exceptions)
next
  assume a: "(\<forall>c k. only_exceptions (W c k)) \<and> 0 \<le> SLEEP_SECONDS cfg"
  then show "fst (cycles n cfg W c st) = None"
    using cycles_only_exceptions [of W cfg n c st] by blast
  from a show "fst (main_loop n cfg W st) = None"
    using cycles_only_exceptions [of W cfg n 0 "st\<lparr> last_signals := Map.empty \<rparr>"]
    by (simp add: main_loop_def)
qed

theorem symbol_failure_never_aborts_witness:
  "try_body small_config (fail_first 0) ''AAPL'' empty_state
     = (Some (Exc ''ConnectionError''), empty_state)
   \<and> for_symbols small_config fail_first 0 [''AAPL'', ''MSFT''] empty_state
     = for_symbols small_config fail_first (Suc 0) [''MSFT'']
         (empty_state\<lparr> console := console empty_state
                                    @ [ErrorProcessing ''AAPL'' (Exc ''ConnectionError'')] \<rparr>)
   \<and> (\<forall>c k. only_exceptions (fail_first k)) \<and> 0 \<le> SLEEP_SECONDS small_config
   \<and> fst (main_loop 5 small_config (\<lambda>c. fail_first) empty_state) = None"
proof -
  have t: "try_body small_config (fail_first 0) ''AAPL'' empty_state
     = (Some (Exc ''ConnectionError''), empty_state)"
    by (simp add: try_body_def fail_first_def fetch_fails_def)
  show ?thesis
    using t only_exceptions_fail_first
      symbol_failure_never_aborts [of small_config fail_first 0 "''AAPL''" empty_state
        "''ConnectionError''" empty_state "[''MSFT'']" healthy "[]" "\<lambda>c. fail_first" 5 0]
    by simp
qed

end
